theory Spec2Isabelle
  imports Complex_Main "HOL-Library.AList"
begin

section \<open>The pvdot rebalancing strategy (pkg/strategy/pvd/strategy.go)\<close>

subsection \<open>fixedpoint.Value\<close>

text \<open>
  Modelled from the spec: the package \<open>fixedpoint\<close> is imported by strategy.go but its
  code is not part of the sources. The spec calls its values "decimal" and compares them
  exactly (\<open>Sum(m) == 1 (exact)\<close>), so a \<open>Value\<close> is an exact rational number and
  \<open>Add\<close>, \<open>Sub\<close>, \<open>Mul\<close>, \<open>Abs\<close> are the exact operations. \<open>Div\<close> is the exact
  quotient; the quotient cut to the 8 decimal places that a fixed-point value keeps is
  \<open>DivFixed\<close> below, and the one property that exact division would grant and the cut
  takes away (Normalize applied twice) is stated with it.
\<close>

type_synonym Value = rat

definition NewFromFloat :: "rat \<Rightarrow> Value" where
  "NewFromFloat f = f"

definition One :: Value where
  "One = 1"

definition Float64 :: "Value \<Rightarrow> rat" where
  "Float64 v = v"

definition Add :: "Value \<Rightarrow> Value \<Rightarrow> Value" where
  "Add v v2 = v + v2"

definition Sub :: "Value \<Rightarrow> Value \<Rightarrow> Value" where
  "Sub v v2 = v - v2"

definition Mul :: "Value \<Rightarrow> Value \<Rightarrow> Value" where
  "Mul v v2 = v * v2"

text \<open>
  Modelled from the spec: \<open>Div\<close> is the exact quotient of the spec's decimals. Division
  by zero is "fails/undefined ... a precondition, not a recoverable error". The Go call
  returns some value and does not panic in strategy.go, so \<open>Div\<close> stays a total function
  whose result for a zero divisor is left unspecified: nothing can be proved from it.
\<close>

definition Div :: "Value \<Rightarrow> Value \<Rightarrow> Value" where
  "Div v v2 = (if v2 = 0 then undefined v else v / v2)"



definition Abs :: "Value \<Rightarrow> Value" where
  "Abs v = \<bar>v\<bar>"

definition Sign :: "Value \<Rightarrow> int" where
  "Sign v = (if v < 0 then - 1 else if v = 0 then 0 else 1)"

definition Compare :: "Value \<Rightarrow> Value \<Rightarrow> int" where
  "Compare v v2 = (if v < v2 then - 1 else if v = v2 then 0 else 1)"

subsection \<open>Go maps\<close>

text \<open>
  A \<open>map[string]fixedpoint.Value\<close> is an association list whose keys are pairwise
  distinct (\<open>wellformed\<close>); the order of the list is the order in which a \<open>range\<close>
  loop visits the entries. Go leaves that order unspecified, so it is part of the input
  here, and every loop over one map visits it in the same order. \<open>m[k]\<close> reads the zero
  value for a missing key (\<open>valueAt\<close>), \<open>m[k] = v\<close> is \<open>AList.update k v m\<close>.
\<close>

type_synonym vmap = "(string \<times> Value) list"

definition keys :: "(string \<times> 'v) list \<Rightarrow> string set" where
  "keys m = fst ` set m"

definition wellformed :: "(string \<times> 'v) list \<Rightarrow> bool" where
  "wellformed m = distinct (map fst m)"

definition valueAt :: "vmap \<Rightarrow> string \<Rightarrow> Value" where
  "valueAt m k = (case map_of m k of None \<Rightarrow> 0 | Some v \<Rightarrow> v)"

subsection \<open>Sum, Normalize, ElementwiseProduct\<close>

definition Sum :: "vmap \<Rightarrow> Value" where
  "Sum m = fold (\<lambda>(_, v) sum. Add sum v) m (NewFromFloat 0)"

definition Normalize :: "vmap \<Rightarrow> vmap" where
  "Normalize m =
     (let sum = Sum m in
      if Float64 sum = 1 then m
      else fold (\<lambda>(k, v) normalized. AList.update k (Div v sum) normalized) m [])"

text \<open>
  Normalize with the division of \<open>fixedpoint.Value\<close> as a parameter: \<open>NormalizeBy Div\<close>
  is \<open>Normalize\<close>, \<open>NormalizeBy DivFixed\<close> is Normalize over the 8-place division.
\<close>

definition NormalizeBy :: "(Value \<Rightarrow> Value \<Rightarrow> Value) \<Rightarrow> vmap \<Rightarrow> vmap" where
  "NormalizeBy quot m =
     (let sum = Sum m in
      if Float64 sum = 1 then m
      else fold (\<lambda>(k, v) normalized. AList.update k (quot v sum) normalized) m [])"

definition ElementwiseProduct :: "vmap \<Rightarrow> vmap \<Rightarrow> vmap" where
  "ElementwiseProduct m1 m2 =
     fold (\<lambda>(k, v) m. AList.update k (Mul v (valueAt m2 k)) m) m1 []"

subsection \<open>Configuration, orders and the collaborators\<close>

text \<open>
  The fields of \<open>Strategy\<close> that the modelled functions read. \<open>Interval\<close>, \<open>Window\<close>,
  \<open>Notifiability\<close> and \<open>set\<close> belong to the weight source and the host framework.
\<close>

record Strategy =
  BaseCurrency :: string
  QuoteCurrencies :: "string list"
  Threshold :: Value
  IgnoreLocked :: bool
  Verbose :: bool
  DryRun :: bool
  MaxAmount :: Value

datatype SideType = SideTypeBuy | SideTypeSell

text \<open>\<open>types.OrderTypeMarket\<close> is the only order type strategy.go uses.\<close>

datatype OrderType = OrderTypeMarket

text \<open>
  The fields of \<open>types.SubmitOrder\<close> that generateSubmitOrders sets; all others keep
  their zero value.
\<close>

record SubmitOrder =
  Symbol :: string
  Side :: SideType
  Type :: OrderType
  Quantity :: Value

record Ticker =
  Last :: Value

text \<open>
  Modelled from the spec: \<open>types.Balance\<close> is not part of the sources; the total balance
  is "available + locked".
\<close>

record Balance =
  Available :: Value
  Locked :: Value

definition Total :: "Balance \<Rightarrow> Value" where
  "Total b = Add (Available b) (Locked b)"

type_synonym BalanceMap = "(string \<times> Balance) list"

definition balanceAt :: "BalanceMap \<Rightarrow> string \<Rightarrow> Balance" where
  "balanceAt balances k =
     (case map_of balances k of
        None \<Rightarrow> \<lparr>Available = 0, Locked = 0\<rparr>
      | Some b \<Rightarrow> b)"

text \<open>A Go \<open>error\<close> is its message.\<close>

type_synonym error = string

text \<open>
  What one tick reads from outside: the target weights of the weight source
  (\<open>s.set.TargetWeights()\<close>), the exchange's answer to \<open>QueryTicker\<close> for a symbol,
  the account balances, and the error (if any) that the order executor's
  \<open>SubmitOrders\<close> returns for a list of orders.
\<close>

record Env =
  TargetWeights :: vmap
  QueryTicker :: "string \<Rightarrow> error + Ticker"
  Balances :: BalanceMap
  SubmitOrders :: "SubmitOrder list \<Rightarrow> error option"

datatype LogEntry =
    LogQueryTickerError error
  | LogGeneratedOrder SubmitOrder
  | LogSubmitOrderError error

text \<open>
  What one tick does to the outside, as traces: the symbols passed to \<open>QueryTicker\<close>, the
  messages passed to \<open>Notify\<close>, the log lines of rebalance and getPrices, and the
  argument list of every call of \<open>SubmitOrders\<close>. The informational log lines inside
  generateSubmitOrders only print values and are left out.
\<close>

record World =
  tickerQueries :: "string list"
  notifications :: "string list"
  logs :: "LogEntry list"
  submitted :: "SubmitOrder list list"

subsection \<open>Validate\<close>

definition Validate :: "Strategy \<Rightarrow> error option" where
  "Validate s =
     (if Sign (Threshold s) < 0 then Some ''threshold should not less than 0''
      else if Sign (MaxAmount s) < 0 then Some ''maxAmount shoud not less than 0''
      else None)"

subsection \<open>getPrices and getQuantities\<close>

fun getPrices_loop ::
  "Strategy \<Rightarrow> Env \<Rightarrow> (string \<times> Value) list \<Rightarrow> vmap \<Rightarrow> World \<Rightarrow> (vmap \<times> error option) \<times> World"
where
  "getPrices_loop s env [] prices w = ((prices, None), w)"
| "getPrices_loop s env ((currency, _) # rest) prices w =
     (if currency = BaseCurrency s
      then getPrices_loop s env rest (AList.update currency One prices) w
      else
        let symbol = currency @ BaseCurrency s;
            w1 = w\<lparr>tickerQueries := tickerQueries w @ [symbol]\<rparr>
        in case QueryTicker env symbol of
             Inl err \<Rightarrow>
               ((prices, Some err),
                w1\<lparr>notifications := notifications w1 @ [''query ticker error: '' @ err],
                   logs := logs w1 @ [LogQueryTickerError err]\<rparr>)
           | Inr ticker \<Rightarrow>
               getPrices_loop s env rest (AList.update currency (Last ticker) prices) w1)"

definition getPrices ::
  "Strategy \<Rightarrow> Env \<Rightarrow> vmap \<Rightarrow> World \<Rightarrow> (vmap \<times> error option) \<times> World"
where
  "getPrices s env targetWeights w = getPrices_loop s env targetWeights [] w"

definition getQuantities :: "Strategy \<Rightarrow> BalanceMap \<Rightarrow> vmap \<Rightarrow> vmap" where
  "getQuantities s balances targetWeights =
     fold (\<lambda>(currency, _) quantities.
             if IgnoreLocked s
             then AList.update currency (Total (balanceAt balances currency)) quantities
             else AList.update currency (Available (balanceAt balances currency)) quantities)
          targetWeights []"

subsection \<open>generateSubmitOrders\<close>

text \<open>
  Modelled from the spec: \<open>bbgo.AdjustQuantityByMaxAmount\<close> is called by
  generateSubmitOrders but its code is not part of the sources. The spec: "cap quantity
  such that quantity * price[c] <= maxNotional, i.e.
  quantity = min(quantity, maxNotional / price[c])".
\<close>

definition AdjustQuantityByMaxAmount :: "Value \<Rightarrow> Value \<Rightarrow> Value \<Rightarrow> Value" where
  "AdjustQuantityByMaxAmount quantity currentPrice maxAmount =
     min quantity (Div maxAmount currentPrice)"

fun generateSubmitOrders_loop ::
  "Strategy \<Rightarrow> vmap \<Rightarrow> vmap \<Rightarrow> Value \<Rightarrow> (string \<times> Value) list \<Rightarrow> SubmitOrder list
   \<Rightarrow> SubmitOrder list"
where
  "generateSubmitOrders_loop s prices currentWeights totalValue [] submitOrders = submitOrders"
| "generateSubmitOrders_loop s prices currentWeights totalValue
     ((currency, targetWeight) # rest) submitOrders =
     (if currency = BaseCurrency s
      then generateSubmitOrders_loop s prices currentWeights totalValue rest submitOrders
      else
        let symbol = currency @ BaseCurrency s;
            currentWeight = valueAt currentWeights currency;
            currentPrice = valueAt prices currency;
            weightDifference = Sub targetWeight currentWeight
        in if Compare (Abs weightDifference) (Threshold s) < 0
           then generateSubmitOrders_loop s prices currentWeights totalValue rest submitOrders
           else
             let quantity = Div (Mul weightDifference totalValue) currentPrice;
                 side = (if Sign quantity < 0 then SideTypeSell else SideTypeBuy);
                 quantity = (if Sign quantity < 0 then Abs quantity else quantity);
                 quantity = (if Sign (MaxAmount s) > 0
                             then AdjustQuantityByMaxAmount quantity currentPrice (MaxAmount s)
                             else quantity);
                 order = \<lparr>Symbol = symbol, Side = side, Type = OrderTypeMarket,
                          Quantity = quantity\<rparr>
             in generateSubmitOrders_loop s prices currentWeights totalValue rest
                  (submitOrders @ [order]))"

definition generateSubmitOrders :: "Strategy \<Rightarrow> vmap \<Rightarrow> vmap \<Rightarrow> vmap \<Rightarrow> SubmitOrder list" where
  "generateSubmitOrders s prices marketValues targetWeights =
     (let currentWeights = Normalize marketValues;
          totalValue = Sum marketValues
      in generateSubmitOrders_loop s prices currentWeights totalValue targetWeights [])"

subsection \<open>rebalance\<close>

definition rebalance :: "Strategy \<Rightarrow> Env \<Rightarrow> World \<Rightarrow> World" where
  "rebalance s env w =
     (let targetWeights = TargetWeights env in
      case getPrices s env targetWeights w of
        ((prices, Some err), w1) \<Rightarrow> w1
      | ((prices, None), w1) \<Rightarrow>
          (let balances = Balances env;
               quantities = getQuantities s balances targetWeights;
               marketValues = ElementwiseProduct prices quantities;
               orders = generateSubmitOrders s prices marketValues targetWeights;
               w2 = w1\<lparr>logs := logs w1 @ map LogGeneratedOrder orders\<rparr>
           in if DryRun s then w2
              else
                (let w3 = w2\<lparr>submitted := submitted w2 @ [orders]\<rparr>
                 in (case SubmitOrders env orders of
                       Some err \<Rightarrow> w3\<lparr>logs := logs w3 @ [LogSubmitOrderError err]\<rparr>
                     | None \<Rightarrow> w3))))"

subsection \<open>Closed forms used in the statements and proofs\<close>

text \<open>
  The raw quantity of line 202: the weight difference of a currency times the total value,
  divided by the currency's price, before the sign is taken off and before any cap.
\<close>

definition rawQuantity :: "vmap \<Rightarrow> vmap \<Rightarrow> string \<Rightarrow> Value \<Rightarrow> Value" where
  "rawQuantity prices marketValues currency targetWeight =
     Div (Mul (Sub targetWeight (valueAt (Normalize marketValues) currency)) (Sum marketValues))
         (valueAt prices currency)"

text \<open>
  One iteration of the loop of generateSubmitOrders, split into its guard (the two
  \<open>continue\<close> branches negated) and the order it appends.
\<close>

definition trades :: "Strategy \<Rightarrow> vmap \<Rightarrow> string \<times> Value \<Rightarrow> bool" where
  "trades s currentWeights =
     (\<lambda>(currency, targetWeight).
        currency \<noteq> BaseCurrency s \<and>
        \<not> Compare (Abs (Sub targetWeight (valueAt currentWeights currency))) (Threshold s) < 0)"

definition orderOf :: "Strategy \<Rightarrow> vmap \<Rightarrow> vmap \<Rightarrow> Value \<Rightarrow> string \<times> Value \<Rightarrow> SubmitOrder" where
  "orderOf s prices currentWeights totalValue =
     (\<lambda>(currency, targetWeight).
        let currentPrice = valueAt prices currency;
            quantity = Div (Mul (Sub targetWeight (valueAt currentWeights currency)) totalValue)
                         currentPrice;
            absQuantity = (if Sign quantity < 0 then Abs quantity else quantity)
        in \<lparr>Symbol = currency @ BaseCurrency s,
            Side = (if Sign quantity < 0 then SideTypeSell else SideTypeBuy),
            Type = OrderTypeMarket,
            Quantity = (if Sign (MaxAmount s) > 0
                        then AdjustQuantityByMaxAmount absQuantity currentPrice (MaxAmount s)
                        else absQuantity)\<rparr>)"

text \<open>
  The price getPrices stores for a currency whose lookup succeeds, and the symbols it
  passes to \<open>QueryTicker\<close> while it visits the entries \<open>m\<close>.
\<close>

definition resolvedPrice :: "Strategy \<Rightarrow> Env \<Rightarrow> string \<Rightarrow> Value" where
  "resolvedPrice s env currency =
     (if currency = BaseCurrency s then One
      else Last (projr (QueryTicker env (currency @ BaseCurrency s))))"

definition queriedSymbols :: "Strategy \<Rightarrow> (string \<times> Value) list \<Rightarrow> string list" where
  "queriedSymbols s m =
     map (\<lambda>k. k @ BaseCurrency s) (filter (\<lambda>k. k \<noteq> BaseCurrency s) (map fst m))"

text \<open>The orders that rebalance has logged as generated, in the order of the log.\<close>

fun generatedOrders :: "LogEntry list \<Rightarrow> SubmitOrder list" where
  "generatedOrders [] = []"
| "generatedOrders (LogGeneratedOrder order # es) = order # generatedOrders es"
| "generatedOrders (_ # es) = generatedOrders es"

subsection \<open>An example tick\<close>

text \<open>
  Base currency USDT, threshold 0.05, no cap. BTC is held at weight 0.5 against a target
  of 0.6, ETH at 0.18 against 0.2.
\<close>

definition exampleStrategy :: Strategy where
  "exampleStrategy =
     \<lparr>BaseCurrency = ''USDT'', QuoteCurrencies = [''BTC'', ''ETH''], Threshold = 1 / 20,
      IgnoreLocked = False, Verbose = False, DryRun = False, MaxAmount = 0\<rparr>"

definition exampleTargetWeights :: vmap where
  "exampleTargetWeights = [(''BTC'', 3 / 5), (''ETH'', 1 / 5), (''USDT'', 1 / 5)]"

definition examplePrices :: vmap where
  "examplePrices = [(''BTC'', 2), (''ETH'', 3), (''USDT'', 1)]"

definition exampleMarketValues :: vmap where
  "exampleMarketValues = [(''BTC'', 50), (''ETH'', 18), (''USDT'', 32)]"

definition exampleTicker :: "string \<Rightarrow> error + Ticker" where
  "exampleTicker symbol =
     (if symbol = ''BTCUSDT'' then Inr \<lparr>Last = 2\<rparr>
      else if symbol = ''ETHUSDT'' then Inr \<lparr>Last = 3\<rparr>
      else Inl ''unknown symbol'')"

definition failingTicker :: "string \<Rightarrow> error + Ticker" where
  "failingTicker symbol =
     (if symbol = ''ETHUSDT'' then Inl ''timeout'' else exampleTicker symbol)"

definition exampleBalances :: BalanceMap where
  "exampleBalances =
     [(''BTC'', \<lparr>Available = 25, Locked = 5\<rparr>),
      (''ETH'', \<lparr>Available = 6, Locked = 0\<rparr>),
      (''USDT'', \<lparr>Available = 32, Locked = 0\<rparr>)]"

definition exampleEnv :: Env where
  "exampleEnv =
     \<lparr>TargetWeights = exampleTargetWeights, QueryTicker = exampleTicker,
      Balances = exampleBalances, SubmitOrders = (\<lambda>_. None)\<rparr>"

definition failingEnv :: Env where
  "failingEnv = exampleEnv\<lparr>QueryTicker := failingTicker\<rparr>"

definition emptyWorld :: World where
  "emptyWorld = \<lparr>tickerQueries = [], notifications = [], logs = [], submitted = []\<rparr>"

text \<open>
  A balanced two-currency portfolio with threshold 0: BTC is held exactly at its target
  weight 0.5.
\<close>

definition balancedStrategy :: Strategy where
  "balancedStrategy = exampleStrategy\<lparr>Threshold := 0\<rparr>"

definition balancedTargetWeights :: vmap where
  "balancedTargetWeights = [(''BTC'', 1 / 2), (''USDT'', 1 / 2)]"

definition balancedPrices :: vmap where
  "balancedPrices = [(''BTC'', 2), (''USDT'', 1)]"

definition balancedMarketValues :: vmap where
  "balancedMarketValues = [(''BTC'', 50), (''USDT'', 50)]"



section \<open>Auxiliary lemmas\<close>

lemma update_fresh: "k \<notin> fst ` set al \<Longrightarrow> AList.update k v al = al @ [(k, v)]"
  by (induction al) auto

lemma fold_update_fresh:
  "distinct (map fst m) \<Longrightarrow> fst ` set m \<inter> fst ` set acc = {} \<Longrightarrow>
   fold (\<lambda>(k, v) a. AList.update k (f k v) a) m acc = acc @ map (\<lambda>(k, v). (k, f k v)) m"
proof (induction m arbitrary: acc)
  case Nil
  then show ?case by simp
next
  case (Cons p m)
  obtain k v where p: "p = (k, v)" by (cases p)
  from Cons.prems have fresh: "k \<notin> fst ` set acc" and d: "distinct (map fst m)"
    and km: "k \<notin> fst ` set m" and disj: "fst ` set m \<inter> fst ` set acc = {}"
    by (auto simp: p)
  have "fst ` set m \<inter> fst ` set (acc @ [(k, f k v)]) = {}"
    using km disj by auto
  from Cons.IH [OF d this] show ?case
    by (simp add: p update_fresh [OF fresh])
qed

lemma fold_update_keys:
  "fst ` set (fold (\<lambda>(k, v) a. AList.update k (f k v) a) m acc) = fst ` set m \<union> fst ` set acc"
proof (induction m arbitrary: acc)
  case Nil
  then show ?case by simp
next
  case (Cons p m)
  obtain k v where p: "p = (k, v)" by (cases p)
  have "fst ` set (AList.update k (f k v) acc) = {k} \<union> fst ` set acc"
    by (rule AList.dom_update)
  with Cons.IH [of "AList.update k (f k v) acc"] show ?case
    by (simp add: p)
qed




lemma ElementwiseProduct_map:
  "wellformed m1 \<Longrightarrow> ElementwiseProduct m1 m2 = map (\<lambda>(k, v). (k, Mul v (valueAt m2 k))) m1"
  by (simp add: ElementwiseProduct_def wellformed_def fold_update_fresh)

lemma generateSubmitOrders_loop_closed:
  "generateSubmitOrders_loop s prices cw tv tws acc =
     acc @ map (orderOf s prices cw tv) (filter (trades s cw) tws)"
proof (induction tws arbitrary: acc)
  case Nil
  then show ?case by simp
next
  case (Cons p tws)
  obtain c t where p: "p = (c, t)" by (cases p)
  show ?case
    by (simp add: p Cons.IH trades_def orderOf_def Let_def)
qed

lemma generateSubmitOrders_closed:
  "generateSubmitOrders s prices mv tws =
     map (orderOf s prices (Normalize mv) (Sum mv)) (filter (trades s (Normalize mv)) tws)"
  by (simp add: generateSubmitOrders_def Let_def generateSubmitOrders_loop_closed)

lemma Symbol_orderOf: "Symbol (orderOf s prices cw tv (c, t)) = c @ BaseCurrency s"
  by (simp add: orderOf_def Let_def)

lemma wellformed_unique: "wellformed m \<Longrightarrow> (k, v) \<in> set m \<Longrightarrow> (k, v') \<in> set m \<Longrightarrow> v = v'"
  unfolding wellformed_def by (rule eq_key_imp_eq_value)

lemma order_for_currency:
  assumes wf: "wellformed tws" and mem: "(c, t) \<in> set tws"
    and ord: "order \<in> set (generateSubmitOrders s prices mv tws)"
    and sym: "Symbol order = c @ BaseCurrency s"
  shows "order = orderOf s prices (Normalize mv) (Sum mv) (c, t) \<and> trades s (Normalize mv) (c, t)"
proof -
  from ord obtain p where p: "p \<in> set tws" "trades s (Normalize mv) p"
    "order = orderOf s prices (Normalize mv) (Sum mv) p"
    by (auto simp: generateSubmitOrders_closed)
  obtain c' t' where p': "p = (c', t')" by (cases p)
  from sym p(3) have "c' = c" by (simp add: p' Symbol_orderOf)
  with p(1) mem wf have "t' = t" by (auto simp: p' dest: wellformed_unique)
  with p \<open>c' = c\<close> show ?thesis by (simp add: p')
qed

lemma Compare_less: "Compare a b < 0 \<longleftrightarrow> a < b"
  by (simp add: Compare_def)

lemma Sign_neg: "Sign v < 0 \<longleftrightarrow> v < 0"
  by (simp add: Sign_def)

lemma Sign_pos: "Sign v > 0 \<longleftrightarrow> v > 0"
  by (simp add: Sign_def)

lemma orderOf_Side:
  "Side (orderOf s prices (Normalize mv) (Sum mv) (c, t)) =
     (if rawQuantity prices mv c t < 0 then SideTypeSell else SideTypeBuy)"
  by (simp add: orderOf_def rawQuantity_def Let_def Sign_neg)

lemma orderOf_Quantity:
  "Quantity (orderOf s prices (Normalize mv) (Sum mv) (c, t)) =
     (if 0 < MaxAmount s
      then AdjustQuantityByMaxAmount \<bar>rawQuantity prices mv c t\<bar> (valueAt prices c) (MaxAmount s)
      else \<bar>rawQuantity prices mv c t\<bar>)"
  by (simp add: orderOf_def rawQuantity_def Let_def Sign_neg Sign_pos Abs_def)

lemma Div_nonzero: "d \<noteq> 0 \<Longrightarrow> Div v d = v / d"
  by (simp add: Div_def)

lemma Adjust_nonneg_iff:
  assumes "0 < p" "0 < m" "0 \<le> q"
  shows "0 \<le> AdjustQuantityByMaxAmount q p m \<and> (AdjustQuantityByMaxAmount q p m = 0 \<longleftrightarrow> q = 0)"
proof -
  from assms have "0 < m / p" by simp
  with assms show ?thesis
    by (auto simp: AdjustQuantityByMaxAmount_def Div_nonzero min_def)
qed

lemma Adjust_le: "AdjustQuantityByMaxAmount q p m \<le> q"
  by (simp add: AdjustQuantityByMaxAmount_def)

lemma Adjust_notional:
  assumes "0 < m" "0 \<le> q"
  shows "AdjustQuantityByMaxAmount q p m * p \<le> m"
proof -
  consider "p = 0" | "0 < p" | "p < 0" by linarith
  then show ?thesis
  proof cases
    case 1
    with assms show ?thesis by simp
  next
    case 2
    have "min q (m / p) * p \<le> (m / p) * p"
      using 2 by (intro mult_right_mono) auto
    with 2 show ?thesis
      by (simp add: AdjustQuantityByMaxAmount_def Div_nonzero)
  next
    case 3
    with assms have "m / p < 0" by (simp add: divide_pos_neg)
    with assms have "min q (m / p) = m / p" by (simp add: min_def)
    with 3 show ?thesis
      by (simp add: AdjustQuantityByMaxAmount_def Div_nonzero)
  qed
qed

lemma map_of_map_entries:
  "map_of (map (\<lambda>(k, v). (k, f k v)) m) k = map_option (f k) (map_of m k)"
  by (induction m) auto





lemma getPrices_loop_fails:
  assumes "distinct (map fst pre)" and "fst ` set pre \<inter> fst ` set acc = {}"
    and "c \<noteq> BaseCurrency s" and "QueryTicker env (c @ BaseCurrency s) = Inl err"
    and "\<forall>k \<in> fst ` set pre. k \<noteq> BaseCurrency s \<longrightarrow>
           (\<exists>ticker. QueryTicker env (k @ BaseCurrency s) = Inr ticker)"
  shows "getPrices_loop s env (pre @ (c, t) # post) acc w =
     ((acc @ map (\<lambda>(k, _). (k, resolvedPrice s env k)) pre, Some err),
      w\<lparr>tickerQueries := tickerQueries w @ queriedSymbols s pre @ [c @ BaseCurrency s],
        notifications := notifications w @ [''query ticker error: '' @ err],
        logs := logs w @ [LogQueryTickerError err]\<rparr>)"
  using assms
proof (induction pre arbitrary: acc w)
  case Nil
  then show ?case by (simp add: queriedSymbols_def)
next
  case (Cons p pre)
  obtain k v where p: "p = (k, v)" by (cases p)
  from Cons.prems have fresh: "k \<notin> fst ` set acc" and d: "distinct (map fst pre)"
    and km: "k \<notin> fst ` set pre" and disj: "fst ` set pre \<inter> fst ` set acc = {}"
    by (auto simp: p)
  have ok: "\<forall>k \<in> fst ` set pre. k \<noteq> BaseCurrency s \<longrightarrow>
           (\<exists>ticker. QueryTicker env (k @ BaseCurrency s) = Inr ticker)"
    using Cons.prems(5) by simp
  have disj': "fst ` set pre \<inter> fst ` set (acc @ [(k, x)]) = {}" for x
    using km disj by auto
  note IH = Cons.IH [OF d disj' Cons.prems(3,4) ok]
  have upd: "AList.update k x acc = acc @ [(k, x)]" for x
    by (rule update_fresh [OF fresh])
  show ?case
  proof (cases "k = BaseCurrency s")
    case True
    have "getPrices_loop s env ((p # pre) @ (c, t) # post) acc w =
          getPrices_loop s env (pre @ (c, t) # post) (acc @ [(k, One)]) w"
      unfolding p using True upd [of One] by simp
    also note IH
    finally show ?thesis
      using True by (simp add: p resolvedPrice_def queriedSymbols_def)
  next
    case False
    with Cons.prems(5) obtain ticker where tk: "QueryTicker env (k @ BaseCurrency s) = Inr ticker"
      by (auto simp: p)
    have "getPrices_loop s env ((p # pre) @ (c, t) # post) acc w =
          getPrices_loop s env (pre @ (c, t) # post) (acc @ [(k, Last ticker)])
            (w\<lparr>tickerQueries := tickerQueries w @ [k @ BaseCurrency s]\<rparr>)"
      unfolding p using False tk by (simp add: upd)
    also note IH
    finally show ?thesis
      using False tk by (simp add: p resolvedPrice_def queriedSymbols_def)
  qed
qed

lemma getPrices_loop_submitted:
  "submitted (snd (getPrices_loop s env tws acc w)) = submitted w"
proof (induction tws arbitrary: acc w)
  case Nil
  then show ?case by simp
next
  case (Cons p tws)
  obtain k v where p: "p = (k, v)" by (cases p)
  show ?case
    by (simp add: p Cons.IH Let_def split: sum.split)
qed

lemma getPrices_loop_success_logs:
  "getPrices_loop s env tws acc w = ((prices, None), w1) \<Longrightarrow> logs w1 = logs w"
proof (induction tws arbitrary: acc w)
  case Nil
  then show ?case by simp
next
  case (Cons p tws)
  obtain k v where p: "p = (k, v)" by (cases p)
  from Cons.prems show ?case
    by (auto simp: p Let_def split: sum.splits if_splits dest: Cons.IH)
qed

lemma getPrices_loop_DryRun:
  "getPrices_loop (s\<lparr>DryRun := b\<rparr>) env tws acc w = getPrices_loop s env tws acc w"
proof (induction tws arbitrary: acc w)
  case Nil
  then show ?case by simp
next
  case (Cons p tws)
  obtain k v where p: "p = (k, v)" by (cases p)
  show ?case
    by (simp add: p Cons.IH Let_def split: sum.split)
qed

lemma generateSubmitOrders_DryRun:
  "generateSubmitOrders (s\<lparr>DryRun := b\<rparr>) prices mv tws = generateSubmitOrders s prices mv tws"
  by (simp add: generateSubmitOrders_closed orderOf_def trades_def Let_def)

lemma getQuantities_DryRun:
  "getQuantities (s\<lparr>DryRun := b\<rparr>) balances tws = getQuantities s balances tws"
  by (simp add: getQuantities_def)

lemma generatedOrders_append:
  "generatedOrders (xs @ ys) = generatedOrders xs @ generatedOrders ys"
  by (induction xs rule: generatedOrders.induct) auto

lemma generatedOrders_map: "generatedOrders (map LogGeneratedOrder os) = os"
  by (induction os) auto

lemma getPrices_submitted: "submitted (snd (getPrices s env tws w)) = submitted w"
  by (simp add: getPrices_def getPrices_loop_submitted)

lemma getPrices_success_logs: "getPrices s env tws w = ((prices, None), w1) \<Longrightarrow> logs w1 = logs w"
  unfolding getPrices_def by (rule getPrices_loop_success_logs)

lemma getPrices_DryRun: "getPrices (s\<lparr>DryRun := b\<rparr>) env tws w = getPrices s env tws w"
  by (simp add: getPrices_def getPrices_loop_DryRun)

lemma rebalance_price_error:
  "getPrices s env (TargetWeights env) w = ((prices, Some err), w1) \<Longrightarrow> rebalance s env w = w1"
  by (simp add: rebalance_def)

lemma rebalance_dry_run:
  assumes "getPrices s env (TargetWeights env) w = ((prices, None), w1)" and "DryRun s"
  shows "rebalance s env w =
     w1\<lparr>logs := logs w1 @ map LogGeneratedOrder
        (generateSubmitOrders s prices
           (ElementwiseProduct prices (getQuantities s (Balances env) (TargetWeights env)))
           (TargetWeights env))\<rparr>"
  using assms by (simp add: rebalance_def Let_def)

lemma rebalance_submits:
  assumes "getPrices s env (TargetWeights env) w = ((prices, None), w1)" and "\<not> DryRun s"
  shows "\<exists>tail. rebalance s env w =
     w1\<lparr>logs := logs w1 @ map LogGeneratedOrder
        (generateSubmitOrders s prices
           (ElementwiseProduct prices (getQuantities s (Balances env) (TargetWeights env)))
           (TargetWeights env)) @ tail,
        submitted := submitted w1 @
          [generateSubmitOrders s prices
            (ElementwiseProduct prices (getQuantities s (Balances env) (TargetWeights env)))
            (TargetWeights env)]\<rparr>
     \<and> generatedOrders tail = []"
proof (cases "SubmitOrders env (generateSubmitOrders s prices
            (ElementwiseProduct prices (getQuantities s (Balances env) (TargetWeights env)))
            (TargetWeights env))")
  case None
  with assms show ?thesis
    by (intro exI [of _ "[]"]) (simp add: rebalance_def Let_def)
next
  case (Some e)
  with assms show ?thesis
    by (intro exI [of _ "[LogSubmitOrderError e]"]) (simp add: rebalance_def Let_def)
qed

subsection \<open>Normalize over the 8-place division\<close>

lemma Normalize_NormalizeBy: "Normalize m = NormalizeBy Div m"
  by (simp add: Normalize_def NormalizeBy_def)










subsection \<open>The example tick, evaluated\<close>

lemmas fixedpoint_defs = NewFromFloat_def One_def Float64_def Add_def Sub_def Mul_def Div_def
  Abs_def Sign_def Compare_def

lemma example_wellformed: "wellformed exampleTargetWeights"
  by (simp add: wellformed_def exampleTargetWeights_def)

lemma example_Sum: "Sum exampleMarketValues = 100"
  by (simp add: Sum_def exampleMarketValues_def fixedpoint_defs)

lemma example_Normalize:
  "Normalize exampleMarketValues = [(''BTC'', 1 / 2), (''ETH'', 9 / 50), (''USDT'', 8 / 25)]"
  by (simp add: Normalize_def example_Sum Float64_def) (simp add: exampleMarketValues_def Div_def)

lemma example_rawQuantity: "rawQuantity examplePrices exampleMarketValues ''BTC'' (3 / 5) = 5"
  by (simp add: rawQuantity_def example_Sum example_Normalize)
     (simp add: examplePrices_def valueAt_def fixedpoint_defs)

lemma example_orders:
  "generateSubmitOrders exampleStrategy examplePrices exampleMarketValues exampleTargetWeights =
     [\<lparr>Symbol = ''BTCUSDT'', Side = SideTypeBuy, Type = OrderTypeMarket, Quantity = 5\<rparr>]"
  by (simp add: generateSubmitOrders_def example_Sum example_Normalize)
     (simp add: exampleStrategy_def examplePrices_def exampleTargetWeights_def valueAt_def
        fixedpoint_defs)

lemma example_orders_capped:
  "generateSubmitOrders (exampleStrategy\<lparr>MaxAmount := 4\<rparr>) examplePrices exampleMarketValues
     exampleTargetWeights =
     [\<lparr>Symbol = ''BTCUSDT'', Side = SideTypeBuy, Type = OrderTypeMarket, Quantity = 2\<rparr>]"
  by (simp add: generateSubmitOrders_def example_Sum example_Normalize)
     (simp add: exampleStrategy_def examplePrices_def exampleTargetWeights_def valueAt_def
        AdjustQuantityByMaxAmount_def fixedpoint_defs)

lemma example_getPrices:
  "getPrices s exampleEnv (TargetWeights exampleEnv) emptyWorld =
     ((examplePrices, None), emptyWorld\<lparr>tickerQueries := [''BTCUSDT'', ''ETHUSDT'']\<rparr>)"
  if "BaseCurrency s = ''USDT''"
  using that
  by (simp add: getPrices_def exampleEnv_def exampleTargetWeights_def exampleTicker_def
      examplePrices_def emptyWorld_def One_def)

lemma example_marketValues:
  "ElementwiseProduct examplePrices
     (getQuantities s (Balances exampleEnv) (TargetWeights exampleEnv)) = exampleMarketValues"
  if "\<not> IgnoreLocked s"
  using that
  by (simp add: ElementwiseProduct_def getQuantities_def exampleEnv_def exampleTargetWeights_def
      exampleBalances_def examplePrices_def exampleMarketValues_def balanceAt_def valueAt_def
      Mul_def)







section \<open>The claims\<close>

subsection \<open>C1: the threshold decides whether a currency is traded\<close>

text \<open>
  C1. For every non-base currency \<open>c\<close> of the target-weight map, generateSubmitOrders
  produces no order for \<open>c\<close> (no order with symbol \<open>c + BaseCurrency\<close>) when the absolute
  deviation \<open>|targetWeight[c] - currentWeight[c]|\<close> is strictly below the threshold, and
  produces one when it is greater than or equal to the threshold; the current weights are
  \<open>Normalize(marketValues)\<close>.
\<close>

theorem threshold_decides_order:
  assumes "wellformed targetWeights" and "(c, t) \<in> set targetWeights"
    and "c \<noteq> BaseCurrency s"
  shows "(\<bar>t - valueAt (Normalize marketValues) c\<bar> < Threshold s \<longrightarrow>
            \<not> (\<exists>order \<in> set (generateSubmitOrders s prices marketValues targetWeights).
                  Symbol order = c @ BaseCurrency s))
       \<and> (Threshold s \<le> \<bar>t - valueAt (Normalize marketValues) c\<bar> \<longrightarrow>
            (\<exists>order \<in> set (generateSubmitOrders s prices marketValues targetWeights).
                  Symbol order = c @ BaseCurrency s))"
proof (intro conjI impI notI)
  assume small: "\<bar>t - valueAt (Normalize marketValues) c\<bar> < Threshold s"
  assume "\<exists>order \<in> set (generateSubmitOrders s prices marketValues targetWeights).
            Symbol order = c @ BaseCurrency s"
  then obtain order where "order \<in> set (generateSubmitOrders s prices marketValues targetWeights)"
    "Symbol order = c @ BaseCurrency s" by blast
  from order_for_currency [OF assms(1,2) this]
  have "trades s (Normalize marketValues) (c, t)" by simp
  with small show False
    by (simp add: trades_def Compare_less Abs_def Sub_def)
next
  assume "Threshold s \<le> \<bar>t - valueAt (Normalize marketValues) c\<bar>"
  with assms(3) have tr: "trades s (Normalize marketValues) (c, t)"
    by (simp add: trades_def Compare_less Abs_def Sub_def)
  let ?o = "orderOf s prices (Normalize marketValues) (Sum marketValues) (c, t)"
  from tr assms(2) have "?o \<in> set (generateSubmitOrders s prices marketValues targetWeights)"
    by (auto simp: generateSubmitOrders_closed)
  moreover have "Symbol ?o = c @ BaseCurrency s" by (rule Symbol_orderOf)
  ultimately show "\<exists>order \<in> set (generateSubmitOrders s prices marketValues targetWeights).
            Symbol order = c @ BaseCurrency s" by blast
qed

text \<open>
  The example tick with threshold 0.1: BTC deviates by exactly 0.1 and is traded, ETH
  deviates by 0.02 and is not.
\<close>

theorem threshold_decides_order_witness:
  "wellformed exampleTargetWeights
   \<and> (''BTC'', 3 / 5) \<in> set exampleTargetWeights
   \<and> ''BTC'' \<noteq> BaseCurrency (exampleStrategy\<lparr>Threshold := 1 / 10\<rparr>)
   \<and> Threshold (exampleStrategy\<lparr>Threshold := 1 / 10\<rparr>) =
       \<bar>3 / 5 - valueAt (Normalize exampleMarketValues) ''BTC''\<bar>
   \<and> (\<exists>order \<in> set (generateSubmitOrders (exampleStrategy\<lparr>Threshold := 1 / 10\<rparr>)
          examplePrices exampleMarketValues exampleTargetWeights).
          Symbol order = ''BTC'' @ BaseCurrency (exampleStrategy\<lparr>Threshold := 1 / 10\<rparr>))
   \<and> (''ETH'', 1 / 5) \<in> set exampleTargetWeights
   \<and> ''ETH'' \<noteq> BaseCurrency (exampleStrategy\<lparr>Threshold := 1 / 10\<rparr>)
   \<and> \<bar>1 / 5 - valueAt (Normalize exampleMarketValues) ''ETH''\<bar>
       < Threshold (exampleStrategy\<lparr>Threshold := 1 / 10\<rparr>)
   \<and> \<not> (\<exists>order \<in> set (generateSubmitOrders (exampleStrategy\<lparr>Threshold := 1 / 10\<rparr>)
          examplePrices exampleMarketValues exampleTargetWeights).
          Symbol order = ''ETH'' @ BaseCurrency (exampleStrategy\<lparr>Threshold := 1 / 10\<rparr>))"
proof -
  let ?s = "exampleStrategy\<lparr>Threshold := 1 / 10\<rparr>"
  have btc: "(''BTC'', 3 / 5) \<in> set exampleTargetWeights"
    and eth: "(''ETH'', 1 / 5) \<in> set exampleTargetWeights"
    by (simp_all add: exampleTargetWeights_def)
  have nb: "''BTC'' \<noteq> BaseCurrency ?s" "''ETH'' \<noteq> BaseCurrency ?s"
    by (simp_all add: exampleStrategy_def)
  have edge: "Threshold ?s = \<bar>3 / 5 - valueAt (Normalize exampleMarketValues) ''BTC''\<bar>"
    by (simp add: example_Normalize valueAt_def)
  have small: "\<bar>1 / 5 - valueAt (Normalize exampleMarketValues) ''ETH''\<bar> < Threshold ?s"
    by (simp add: example_Normalize valueAt_def)
  from edge have big: "Threshold ?s \<le> \<bar>3 / 5 - valueAt (Normalize exampleMarketValues) ''BTC''\<bar>"
    by (rule eq_refl)
  from threshold_decides_order [OF example_wellformed btc nb(1),
      where prices = examplePrices and marketValues = exampleMarketValues] big
  have yes: "\<exists>order \<in> set (generateSubmitOrders ?s examplePrices exampleMarketValues
          exampleTargetWeights). Symbol order = ''BTC'' @ BaseCurrency ?s"
    by blast
  from threshold_decides_order [OF example_wellformed eth nb(2),
      where prices = examplePrices and marketValues = exampleMarketValues] small
  have no: "\<not> (\<exists>order \<in> set (generateSubmitOrders ?s examplePrices exampleMarketValues
          exampleTargetWeights). Symbol order = ''ETH'' @ BaseCurrency ?s)"
    by blast
  from example_wellformed btc eth nb edge small yes no show ?thesis by blast
qed

subsection \<open>C2: side and quantity of an order\<close>

text \<open>
  C2, as stated, asks for a quantity strictly greater than 0 in every order. With
  threshold 0 (which Validate accepts) and a currency held exactly at its target weight,
  the deviation 0 is not below the threshold, and the code emits a buy order of quantity 0.
\<close>

theorem zero_quantity_order_counterexample:
  "Validate balancedStrategy = None
   \<and> generateSubmitOrders balancedStrategy balancedPrices balancedMarketValues
       balancedTargetWeights =
     [\<lparr>Symbol = ''BTCUSDT'', Side = SideTypeBuy, Type = OrderTypeMarket, Quantity = 0\<rparr>]"
proof -
  have v: "Validate balancedStrategy = None"
    by (simp add: Validate_def balancedStrategy_def exampleStrategy_def Sign_def)
  have s: "Sum balancedMarketValues = 100"
    by (simp add: Sum_def balancedMarketValues_def fixedpoint_defs)
  have n: "Normalize balancedMarketValues = [(''BTC'', 1 / 2), (''USDT'', 1 / 2)]"
    by (simp add: Normalize_def s Float64_def) (simp add: balancedMarketValues_def Div_def)
  have "generateSubmitOrders balancedStrategy balancedPrices balancedMarketValues
       balancedTargetWeights =
     [\<lparr>Symbol = ''BTCUSDT'', Side = SideTypeBuy, Type = OrderTypeMarket, Quantity = 0\<rparr>]"
    by (simp add: generateSubmitOrders_def s n)
       (simp add: balancedStrategy_def exampleStrategy_def balancedPrices_def
          balancedTargetWeights_def valueAt_def fixedpoint_defs)
  with v show ?thesis by simp
qed

text \<open>
  C2 (amended). For every order that generateSubmitOrders produces for a currency \<open>c\<close>:
  the side is determined by the sign of the raw quantity \<open>deviation * TotalValue / price\<close>,
  negative gives sell, positive or zero gives buy; the quantity is the absolute value of
  the raw quantity, passed through AdjustQuantityByMaxAmount when MaxAmount is positive;
  and, when MaxAmount is not positive or the price is positive, the quantity is greater
  than or equal to 0, and it is 0 exactly when the raw quantity is 0.
\<close>

theorem order_side_and_quantity:
  assumes "wellformed targetWeights" and "(c, t) \<in> set targetWeights"
    and "order \<in> set (generateSubmitOrders s prices marketValues targetWeights)"
    and "Symbol order = c @ BaseCurrency s"
  shows "Side order =
           (if rawQuantity prices marketValues c t < 0 then SideTypeSell else SideTypeBuy)
       \<and> Quantity order =
           (if 0 < MaxAmount s
            then AdjustQuantityByMaxAmount \<bar>rawQuantity prices marketValues c t\<bar>
                   (valueAt prices c) (MaxAmount s)
            else \<bar>rawQuantity prices marketValues c t\<bar>)
       \<and> (MaxAmount s \<le> 0 \<or> 0 < valueAt prices c \<longrightarrow>
            0 \<le> Quantity order \<and>
            (Quantity order = 0 \<longleftrightarrow> rawQuantity prices marketValues c t = 0))"
proof -
  from order_for_currency [OF assms]
  have eq: "order = orderOf s prices (Normalize marketValues) (Sum marketValues) (c, t)"
    by simp
  have side: "Side order =
      (if rawQuantity prices marketValues c t < 0 then SideTypeSell else SideTypeBuy)"
    unfolding eq by (rule orderOf_Side)
  have qty: "Quantity order =
           (if 0 < MaxAmount s
            then AdjustQuantityByMaxAmount \<bar>rawQuantity prices marketValues c t\<bar>
                   (valueAt prices c) (MaxAmount s)
            else \<bar>rawQuantity prices marketValues c t\<bar>)"
    unfolding eq by (rule orderOf_Quantity)
  have "0 \<le> Quantity order \<and>
        (Quantity order = 0 \<longleftrightarrow> rawQuantity prices marketValues c t = 0)"
    if h: "MaxAmount s \<le> 0 \<or> 0 < valueAt prices c"
  proof (cases "0 < MaxAmount s")
    case True
    with h have "0 < valueAt prices c" by simp
    from Adjust_nonneg_iff [OF this True, of "\<bar>rawQuantity prices marketValues c t\<bar>"]
    show ?thesis by (simp add: qty True)
  next
    case False
    then show ?thesis by (simp add: qty)
  qed
  with side qty show ?thesis by blast
qed

text \<open>The BTC order of the example tick: raw quantity 5, side buy, quantity 5.\<close>

theorem order_side_and_quantity_witness:
  "wellformed exampleTargetWeights \<and> (''BTC'', 3 / 5) \<in> set exampleTargetWeights
   \<and> \<lparr>Symbol = ''BTCUSDT'', Side = SideTypeBuy, Type = OrderTypeMarket, Quantity = 5\<rparr>
       \<in> set (generateSubmitOrders exampleStrategy examplePrices exampleMarketValues
                exampleTargetWeights)
   \<and> ''BTCUSDT'' = ''BTC'' @ BaseCurrency exampleStrategy
   \<and> rawQuantity examplePrices exampleMarketValues ''BTC'' (3 / 5) = 5
   \<and> MaxAmount exampleStrategy \<le> 0
   \<and> SideTypeBuy =
       (if rawQuantity examplePrices exampleMarketValues ''BTC'' (3 / 5) < 0
        then SideTypeSell else SideTypeBuy)
   \<and> (5::rat) = \<bar>rawQuantity examplePrices exampleMarketValues ''BTC'' (3 / 5)\<bar>"
proof -
  let ?order = "\<lparr>Symbol = ''BTCUSDT'', Side = SideTypeBuy, Type = OrderTypeMarket,
                  Quantity = 5\<rparr>"
  have btc: "(''BTC'', 3 / 5) \<in> set exampleTargetWeights"
    by (simp add: exampleTargetWeights_def)
  have mem: "?order \<in> set (generateSubmitOrders exampleStrategy examplePrices
      exampleMarketValues exampleTargetWeights)"
    by (simp add: example_orders)
  have sym: "Symbol ?order = ''BTC'' @ BaseCurrency exampleStrategy"
    by (simp add: exampleStrategy_def)
  have cap: "MaxAmount exampleStrategy \<le> 0"
    by (simp add: exampleStrategy_def)
  from order_side_and_quantity [OF example_wellformed btc mem sym] cap
  have "Side ?order =
       (if rawQuantity examplePrices exampleMarketValues ''BTC'' (3 / 5) < 0
        then SideTypeSell else SideTypeBuy)"
    and "Quantity ?order = \<bar>rawQuantity examplePrices exampleMarketValues ''BTC'' (3 / 5)\<bar>"
    by simp_all
  with example_wellformed btc mem sym cap example_rawQuantity show ?thesis by simp
qed

subsection \<open>C3: the cap on the notional of an order\<close>

text \<open>
  C3. When MaxAmount is greater than 0, every order that generateSubmitOrders produces for
  a currency \<open>c\<close> satisfies \<open>quantity * price[c] <= MaxAmount\<close>, and the capped quantity is
  never more than the uncapped one (the absolute value of the raw quantity); when
  MaxAmount is 0 the quantity is the uncapped one. AdjustQuantityByMaxAmount is the
  spec's \<open>min(quantity, maxNotional / price[c])\<close>.
\<close>

theorem max_amount_caps_notional:
  assumes "wellformed targetWeights" and "(c, t) \<in> set targetWeights"
    and "order \<in> set (generateSubmitOrders s prices marketValues targetWeights)"
    and "Symbol order = c @ BaseCurrency s"
  shows "(0 < MaxAmount s \<longrightarrow>
            Quantity order * valueAt prices c \<le> MaxAmount s \<and>
            Quantity order \<le> \<bar>rawQuantity prices marketValues c t\<bar>)
       \<and> (MaxAmount s = 0 \<longrightarrow> Quantity order = \<bar>rawQuantity prices marketValues c t\<bar>)"
proof -
  from order_for_currency [OF assms]
  have eq: "order = orderOf s prices (Normalize marketValues) (Sum marketValues) (c, t)"
    by simp
  have qty: "Quantity order =
           (if 0 < MaxAmount s
            then AdjustQuantityByMaxAmount \<bar>rawQuantity prices marketValues c t\<bar>
                   (valueAt prices c) (MaxAmount s)
            else \<bar>rawQuantity prices marketValues c t\<bar>)"
    unfolding eq by (rule orderOf_Quantity)
  show ?thesis
    using Adjust_notional [of "MaxAmount s" "\<bar>rawQuantity prices marketValues c t\<bar>"
        "valueAt prices c"]
      Adjust_le [of "\<bar>rawQuantity prices marketValues c t\<bar>" "valueAt prices c" "MaxAmount s"]
    by (simp add: qty)
qed

text \<open>
  The example tick with MaxAmount 4: the BTC order of raw quantity 5 at price 2 is cut to
  quantity 2, a notional of 4.
\<close>

theorem max_amount_caps_notional_witness:
  "wellformed exampleTargetWeights \<and> (''BTC'', 3 / 5) \<in> set exampleTargetWeights
   \<and> \<lparr>Symbol = ''BTCUSDT'', Side = SideTypeBuy, Type = OrderTypeMarket, Quantity = 2\<rparr>
       \<in> set (generateSubmitOrders (exampleStrategy\<lparr>MaxAmount := 4\<rparr>) examplePrices
                exampleMarketValues exampleTargetWeights)
   \<and> ''BTCUSDT'' = ''BTC'' @ BaseCurrency (exampleStrategy\<lparr>MaxAmount := 4\<rparr>)
   \<and> 0 < MaxAmount (exampleStrategy\<lparr>MaxAmount := 4\<rparr>)
   \<and> 2 * valueAt examplePrices ''BTC'' \<le> MaxAmount (exampleStrategy\<lparr>MaxAmount := 4\<rparr>)
   \<and> 2 \<le> \<bar>rawQuantity examplePrices exampleMarketValues ''BTC'' (3 / 5)\<bar>"
proof -
  let ?s = "exampleStrategy\<lparr>MaxAmount := 4\<rparr>"
  let ?order = "\<lparr>Symbol = ''BTCUSDT'', Side = SideTypeBuy, Type = OrderTypeMarket,
                  Quantity = 2\<rparr>"
  have btc: "(''BTC'', 3 / 5) \<in> set exampleTargetWeights"
    by (simp add: exampleTargetWeights_def)
  have mem: "?order \<in> set (generateSubmitOrders ?s examplePrices exampleMarketValues
      exampleTargetWeights)"
    by (simp add: example_orders_capped)
  have sym: "Symbol ?order = ''BTC'' @ BaseCurrency ?s"
    by (simp add: exampleStrategy_def)
  have cap: "0 < MaxAmount ?s" by simp
  from max_amount_caps_notional [OF example_wellformed btc mem sym] cap
  have "Quantity ?order * valueAt examplePrices ''BTC'' \<le> MaxAmount ?s"
    and "Quantity ?order \<le> \<bar>rawQuantity examplePrices exampleMarketValues ''BTC'' (3 / 5)\<bar>"
    by blast+
  with example_wellformed btc mem sym cap show ?thesis by simp
qed

subsection \<open>C4: getPrices stops at the first failed lookup\<close>

text \<open>
  C4. Let the loop of getPrices visit the target weights as \<open>pre\<close>, then the non-base
  currency \<open>c\<close>, then \<open>post\<close>, and let the lookup for \<open>c\<close> be the first that fails.
  Then getPrices returns the error together with the prices of \<open>pre\<close> only, it has queried
  the symbols of \<open>pre\<close> and of \<open>c\<close> and nothing of \<open>post\<close>, and rebalance ends the tick
  right there: it generates no order and never calls SubmitOrders.
\<close>

theorem getPrices_fails_fast:
  assumes "wellformed (TargetWeights env)"
    and "TargetWeights env = pre @ (c, t) # post"
    and "c \<noteq> BaseCurrency s"
    and "QueryTicker env (c @ BaseCurrency s) = Inl err"
    and "\<forall>k \<in> keys pre. k \<noteq> BaseCurrency s \<longrightarrow>
           (\<exists>ticker. QueryTicker env (k @ BaseCurrency s) = Inr ticker)"
  shows "getPrices s env (TargetWeights env) w =
           ((map (\<lambda>(k, _). (k, resolvedPrice s env k)) pre, Some err),
            w\<lparr>tickerQueries := tickerQueries w @ queriedSymbols s pre @ [c @ BaseCurrency s],
              notifications := notifications w @ [''query ticker error: '' @ err],
              logs := logs w @ [LogQueryTickerError err]\<rparr>)
       \<and> rebalance s env w = snd (getPrices s env (TargetWeights env) w)
       \<and> submitted (rebalance s env w) = submitted w
       \<and> generatedOrders (logs (rebalance s env w)) = generatedOrders (logs w)"
proof -
  from assms(1,2) have d: "distinct (map fst pre)"
    by (simp add: wellformed_def)
  have e: "fst ` set pre \<inter> fst ` set ([] :: vmap) = {}" by simp
  from assms(5) have ok: "\<forall>k \<in> fst ` set pre. k \<noteq> BaseCurrency s \<longrightarrow>
           (\<exists>ticker. QueryTicker env (k @ BaseCurrency s) = Inr ticker)"
    by (simp add: keys_def)
  have gp: "getPrices s env (TargetWeights env) w =
           ((map (\<lambda>(k, _). (k, resolvedPrice s env k)) pre, Some err),
            w\<lparr>tickerQueries := tickerQueries w @ queriedSymbols s pre @ [c @ BaseCurrency s],
              notifications := notifications w @ [''query ticker error: '' @ err],
              logs := logs w @ [LogQueryTickerError err]\<rparr>)"
    unfolding getPrices_def assms(2)
    using getPrices_loop_fails [OF d e assms(3,4) ok, of t post w] by simp
  have rb: "rebalance s env w = snd (getPrices s env (TargetWeights env) w)"
    using rebalance_price_error [OF gp] gp by simp
  have "submitted (rebalance s env w) = submitted w"
    by (simp add: rb getPrices_submitted)
  moreover have "generatedOrders (logs (rebalance s env w)) = generatedOrders (logs w)"
    by (simp add: rb gp generatedOrders_append)
  ultimately show ?thesis using gp rb by blast
qed

text \<open>
  The example tick with a timeout for ETHUSDT: BTC is priced, ETH fails, USDT is never
  reached, and nothing is submitted.
\<close>

theorem getPrices_fails_fast_witness:
  "wellformed (TargetWeights failingEnv)
   \<and> TargetWeights failingEnv = [(''BTC'', 3 / 5)] @ (''ETH'', 1 / 5) # [(''USDT'', 1 / 5)]
   \<and> ''ETH'' \<noteq> BaseCurrency exampleStrategy
   \<and> QueryTicker failingEnv (''ETH'' @ BaseCurrency exampleStrategy) = Inl ''timeout''
   \<and> QueryTicker failingEnv (''BTC'' @ BaseCurrency exampleStrategy) = Inr \<lparr>Last = 2\<rparr>
   \<and> getPrices exampleStrategy failingEnv (TargetWeights failingEnv) emptyWorld =
       (([(''BTC'', 2)], Some ''timeout''),
        \<lparr>tickerQueries = [''BTCUSDT'', ''ETHUSDT''],
         notifications = [''query ticker error: timeout''],
         logs = [LogQueryTickerError ''timeout''], submitted = []\<rparr>)
   \<and> submitted (rebalance exampleStrategy failingEnv emptyWorld) = []
   \<and> generatedOrders (logs (rebalance exampleStrategy failingEnv emptyWorld)) = []"
proof -
  have tws: "TargetWeights failingEnv = [(''BTC'', 3 / 5)] @ (''ETH'', 1 / 5) # [(''USDT'', 1 / 5)]"
    by (simp add: failingEnv_def exampleEnv_def exampleTargetWeights_def)
  have wf: "wellformed (TargetWeights failingEnv)"
    by (simp add: tws wellformed_def)
  have nb: "''ETH'' \<noteq> BaseCurrency exampleStrategy"
    by (simp add: exampleStrategy_def)
  have bad: "QueryTicker failingEnv (''ETH'' @ BaseCurrency exampleStrategy) = Inl ''timeout''"
    by (simp add: failingEnv_def exampleStrategy_def failingTicker_def)
  have good: "QueryTicker failingEnv (''BTC'' @ BaseCurrency exampleStrategy) = Inr \<lparr>Last = 2\<rparr>"
    by (simp add: failingEnv_def exampleStrategy_def failingTicker_def exampleTicker_def)
  have ok: "\<forall>k \<in> keys [(''BTC'', 3 / 5 :: Value)]. k \<noteq> BaseCurrency exampleStrategy \<longrightarrow>
      (\<exists>ticker. QueryTicker failingEnv (k @ BaseCurrency exampleStrategy) = Inr ticker)"
    using good by (simp add: keys_def)
  note fast = getPrices_fails_fast [OF wf tws nb bad ok, of emptyWorld]
  have price: "resolvedPrice exampleStrategy failingEnv ''BTC'' = 2"
    using good by (simp add: resolvedPrice_def exampleStrategy_def)
  have base: "BaseCurrency exampleStrategy = ''USDT''"
    by (simp add: exampleStrategy_def)
  from fast have "getPrices exampleStrategy failingEnv (TargetWeights failingEnv) emptyWorld =
       (([(''BTC'', 2)], Some ''timeout''),
        \<lparr>tickerQueries = [''BTCUSDT'', ''ETHUSDT''],
         notifications = [''query ticker error: timeout''],
         logs = [LogQueryTickerError ''timeout''], submitted = []\<rparr>)"
    by (simp add: price queriedSymbols_def emptyWorld_def base)
  moreover from fast have "submitted (rebalance exampleStrategy failingEnv emptyWorld) = []"
    by (simp add: emptyWorld_def)
  moreover from fast
  have "generatedOrders (logs (rebalance exampleStrategy failingEnv emptyWorld)) = []"
    by (simp add: emptyWorld_def)
  ultimately show ?thesis using wf tws nb bad good by simp
qed

subsection \<open>C5: what Normalize returns\<close>



subsection \<open>C6: the sum after Normalize, and Normalize applied twice\<close>




subsection \<open>C7: ElementwiseProduct keeps the keys of its first argument\<close>

text \<open>
  C7. For all maps \<open>m1\<close> and \<open>m2\<close>, the key set of \<open>ElementwiseProduct(m1, m2)\<close> is the key
  set of \<open>m1\<close>, and for every key \<open>k\<close> of \<open>m1\<close> the result holds \<open>m1[k] * m2[k]\<close>, where
  \<open>m2[k]\<close> is 0 when \<open>k\<close> is absent from \<open>m2\<close>.
\<close>

theorem ElementwiseProduct_keys_and_values:
  assumes "wellformed m1"
  shows "keys (ElementwiseProduct m1 m2) = keys m1 \<and>
         (\<forall>k v. map_of m1 k = Some v \<longrightarrow>
            map_of (ElementwiseProduct m1 m2) k = Some (v * valueAt m2 k))"
proof -
  have "keys (ElementwiseProduct m1 m2) = keys m1"
    by (simp add: keys_def ElementwiseProduct_def fold_update_keys)
  moreover have "map_of (ElementwiseProduct m1 m2) k = Some (v * valueAt m2 k)"
    if "map_of m1 k = Some v" for k v
    using that by (simp add: ElementwiseProduct_map [OF assms] map_of_map_entries Mul_def)
  ultimately show ?thesis by blast
qed

text \<open>
  The example prices against quantities that lack ETH and hold DOGE: ETH stays with value
  0, DOGE does not appear.
\<close>

theorem ElementwiseProduct_keys_and_values_witness:
  "wellformed examplePrices \<and> map_of examplePrices ''ETH'' = Some 3
   \<and> map_of examplePrices ''BTC'' = Some 2
   \<and> keys (ElementwiseProduct examplePrices [(''BTC'', 25), (''USDT'', 32), (''DOGE'', 7)]) =
       {''BTC'', ''ETH'', ''USDT''}
   \<and> map_of (ElementwiseProduct examplePrices [(''BTC'', 25), (''USDT'', 32), (''DOGE'', 7)])
       ''ETH'' = Some 0
   \<and> map_of (ElementwiseProduct examplePrices [(''BTC'', 25), (''USDT'', 32), (''DOGE'', 7)])
       ''BTC'' = Some 50"
proof -
  let ?m2 = "[(''BTC'', 25), (''USDT'', 32), (''DOGE'', 7 :: Value)]"
  have wf: "wellformed examplePrices"
    by (simp add: wellformed_def examplePrices_def)
  have eth: "map_of examplePrices ''ETH'' = Some 3" and btc: "map_of examplePrices ''BTC'' = Some 2"
    by (simp_all add: examplePrices_def)
  have ks: "keys examplePrices = {''BTC'', ''ETH'', ''USDT''}"
    by (simp add: keys_def examplePrices_def)
  have at: "valueAt ?m2 ''ETH'' = 0" "valueAt ?m2 ''BTC'' = 25"
    by (simp_all add: valueAt_def)
  note prod = ElementwiseProduct_keys_and_values [OF wf, of ?m2]
  from prod ks have "keys (ElementwiseProduct examplePrices ?m2) = {''BTC'', ''ETH'', ''USDT''}"
    by simp
  moreover from prod eth at(1) have "map_of (ElementwiseProduct examplePrices ?m2) ''ETH'' = Some 0"
    by simp
  moreover from prod btc at(2) have "map_of (ElementwiseProduct examplePrices ?m2) ''BTC'' = Some 50"
    by simp
  ultimately show ?thesis using wf eth btc by simp
qed

subsection \<open>C8: a dry run computes the same orders and submits nothing\<close>

text \<open>
  C8. With DryRun true, rebalance never calls SubmitOrders, and the orders it generates
  (and logs) are the same list as with DryRun false on the same inputs: when the prices
  resolve, the list generateSubmitOrders returns for them.
\<close>

theorem dry_run_same_orders_no_submit:
  "submitted (rebalance (s\<lparr>DryRun := True\<rparr>) env w) = submitted w
   \<and> generatedOrders (logs (rebalance (s\<lparr>DryRun := True\<rparr>) env w)) =
     generatedOrders (logs (rebalance (s\<lparr>DryRun := False\<rparr>) env w))
   \<and> (\<forall>prices w1. getPrices s env (TargetWeights env) w = ((prices, None), w1) \<longrightarrow>
        generatedOrders (logs (rebalance (s\<lparr>DryRun := True\<rparr>) env w)) =
          generatedOrders (logs w) @
          generateSubmitOrders s prices
            (ElementwiseProduct prices (getQuantities s (Balances env) (TargetWeights env)))
            (TargetWeights env))"
proof -
  let ?T = "s\<lparr>DryRun := True\<rparr>" and ?F = "s\<lparr>DryRun := False\<rparr>"
  obtain prices e w1 where gp: "getPrices s env (TargetWeights env) w = ((prices, e), w1)"
    by (metis surj_pair)
  have gpT: "getPrices ?T env (TargetWeights env) w = ((prices, e), w1)"
    and gpF: "getPrices ?F env (TargetWeights env) w = ((prices, e), w1)"
    by (simp_all add: getPrices_DryRun gp)
  have sub: "submitted w1 = submitted w"
    using getPrices_submitted [of s env "TargetWeights env" w] by (simp add: gp)
  show ?thesis
  proof (cases e)
    case (Some err)
    with gpT gpF have "rebalance ?T env w = w1" "rebalance ?F env w = w1"
      by (simp_all add: rebalance_price_error)
    with sub gp Some show ?thesis by simp
  next
    case None
    let ?orders = "generateSubmitOrders s prices
            (ElementwiseProduct prices (getQuantities s (Balances env) (TargetWeights env)))
            (TargetWeights env)"
    have lg: "logs w1 = logs w"
      using getPrices_success_logs gp None by blast
    have T: "rebalance ?T env w = w1\<lparr>logs := logs w1 @ map LogGeneratedOrder ?orders\<rparr>"
      using rebalance_dry_run [of ?T env w prices w1] gpT None
      by (simp add: generateSubmitOrders_DryRun getQuantities_DryRun)
    obtain tail where F: "rebalance ?F env w =
        w1\<lparr>logs := logs w1 @ map LogGeneratedOrder ?orders @ tail,
           submitted := submitted w1 @ [?orders]\<rparr>" and tl: "generatedOrders tail = []"
      using rebalance_submits [of ?F env w prices w1] gpF None
      by (auto simp: generateSubmitOrders_DryRun getQuantities_DryRun)
    show ?thesis
      using gp None
      by (simp add: T F tl sub lg generatedOrders_append generatedOrders_map)
  qed
qed

text \<open>The example tick as a dry run: the BTC order is generated, nothing is submitted.\<close>

theorem dry_run_same_orders_no_submit_witness:
  "getPrices exampleStrategy exampleEnv (TargetWeights exampleEnv) emptyWorld =
     ((examplePrices, None), emptyWorld\<lparr>tickerQueries := [''BTCUSDT'', ''ETHUSDT'']\<rparr>)
   \<and> submitted (rebalance (exampleStrategy\<lparr>DryRun := True\<rparr>) exampleEnv emptyWorld) = []
   \<and> generatedOrders (logs (rebalance (exampleStrategy\<lparr>DryRun := True\<rparr>) exampleEnv emptyWorld)) =
       [\<lparr>Symbol = ''BTCUSDT'', Side = SideTypeBuy, Type = OrderTypeMarket, Quantity = 5\<rparr>]
   \<and> generatedOrders (logs (rebalance (exampleStrategy\<lparr>DryRun := False\<rparr>) exampleEnv emptyWorld)) =
       [\<lparr>Symbol = ''BTCUSDT'', Side = SideTypeBuy, Type = OrderTypeMarket, Quantity = 5\<rparr>]"
proof -
  have base: "BaseCurrency exampleStrategy = ''USDT''" and avail: "\<not> IgnoreLocked exampleStrategy"
    by (simp_all add: exampleStrategy_def)
  note gp = example_getPrices [OF base]
  note dry = dry_run_same_orders_no_submit [of exampleStrategy exampleEnv emptyWorld]
  from dry have "submitted (rebalance (exampleStrategy\<lparr>DryRun := True\<rparr>) exampleEnv emptyWorld) = []"
    by (simp add: emptyWorld_def)
  moreover from dry gp
  have "generatedOrders (logs (rebalance (exampleStrategy\<lparr>DryRun := True\<rparr>) exampleEnv emptyWorld)) =
      generatedOrders (logs emptyWorld) @
      generateSubmitOrders exampleStrategy examplePrices
        (ElementwiseProduct examplePrices
           (getQuantities exampleStrategy (Balances exampleEnv) (TargetWeights exampleEnv)))
        (TargetWeights exampleEnv)"
    by blast
  then have T: "generatedOrders (logs (rebalance (exampleStrategy\<lparr>DryRun := True\<rparr>) exampleEnv emptyWorld)) =
       [\<lparr>Symbol = ''BTCUSDT'', Side = SideTypeBuy, Type = OrderTypeMarket, Quantity = 5\<rparr>]"
    by (simp add: example_marketValues [OF avail] emptyWorld_def)
       (simp add: exampleEnv_def example_orders)
  moreover from dry T
  have "generatedOrders (logs (rebalance (exampleStrategy\<lparr>DryRun := False\<rparr>) exampleEnv emptyWorld)) =
       [\<lparr>Symbol = ''BTCUSDT'', Side = SideTypeBuy, Type = OrderTypeMarket, Quantity = 5\<rparr>]"
    by simp
  ultimately show ?thesis using gp by simp
qed

subsection \<open>C9: the base currency is never traded\<close>

text \<open>
  C9. Every order that generateSubmitOrders emits is for a currency \<open>c\<close> of the target
  weights that is not the base currency, and its symbol is \<open>c + BaseCurrency\<close>.
\<close>

theorem base_currency_never_traded:
  assumes "order \<in> set (generateSubmitOrders s prices marketValues targetWeights)"
  shows "\<exists>c \<in> keys targetWeights. c \<noteq> BaseCurrency s \<and> Symbol order = c @ BaseCurrency s"
proof -
  from assms obtain p where p: "p \<in> set targetWeights" "trades s (Normalize marketValues) p"
    "order = orderOf s prices (Normalize marketValues) (Sum marketValues) p"
    by (auto simp: generateSubmitOrders_closed)
  obtain c t where ct: "p = (c, t)" by (cases p)
  from p(1) have "c \<in> keys targetWeights" by (force simp: keys_def ct)
  moreover from p(2) have "c \<noteq> BaseCurrency s" by (simp add: ct trades_def)
  moreover from p(3) have "Symbol order = c @ BaseCurrency s" by (simp add: ct Symbol_orderOf)
  ultimately show ?thesis by blast
qed

text \<open>
  In the example tick USDT is 0.12 below its target weight, more than the threshold, and
  still the only order is the one for BTC.
\<close>

theorem base_currency_never_traded_witness:
  "\<lparr>Symbol = ''BTCUSDT'', Side = SideTypeBuy, Type = OrderTypeMarket, Quantity = 5\<rparr>
     \<in> set (generateSubmitOrders exampleStrategy examplePrices exampleMarketValues
              exampleTargetWeights)
   \<and> Threshold exampleStrategy
       \<le> \<bar>valueAt exampleTargetWeights ''USDT'' - valueAt (Normalize exampleMarketValues) ''USDT''\<bar>
   \<and> (\<exists>c \<in> keys exampleTargetWeights. c \<noteq> BaseCurrency exampleStrategy
         \<and> ''BTCUSDT'' = c @ BaseCurrency exampleStrategy)"
proof -
  let ?order = "\<lparr>Symbol = ''BTCUSDT'', Side = SideTypeBuy, Type = OrderTypeMarket,
                  Quantity = 5\<rparr>"
  have mem: "?order \<in> set (generateSubmitOrders exampleStrategy examplePrices
      exampleMarketValues exampleTargetWeights)"
    by (simp add: example_orders)
  have dev: "Threshold exampleStrategy
       \<le> \<bar>valueAt exampleTargetWeights ''USDT'' - valueAt (Normalize exampleMarketValues) ''USDT''\<bar>"
    by (simp add: example_Normalize exampleTargetWeights_def valueAt_def exampleStrategy_def)
  from base_currency_never_traded [OF mem]
  have "\<exists>c \<in> keys exampleTargetWeights. c \<noteq> BaseCurrency exampleStrategy
         \<and> ''BTCUSDT'' = c @ BaseCurrency exampleStrategy"
    by simp
  with mem dev show ?thesis by blast
qed

subsection \<open>C10: SubmitOrders is called even with no orders\<close>

text \<open>
  C10. On a tick where getPrices succeeds and DryRun is false, rebalance calls SubmitOrders
  exactly once more, with the list that generateSubmitOrders returned, whether or not that
  list is empty.
\<close>

theorem submit_called_even_for_no_orders:
  assumes "getPrices s env (TargetWeights env) w = ((prices, None), w1)" and "\<not> DryRun s"
  shows "submitted (rebalance s env w) =
           submitted w @
           [generateSubmitOrders s prices
              (ElementwiseProduct prices (getQuantities s (Balances env) (TargetWeights env)))
              (TargetWeights env)]
       \<and> length (submitted (rebalance s env w)) = Suc (length (submitted w))"
proof -
  have sub: "submitted w1 = submitted w"
    using getPrices_submitted [of s env "TargetWeights env" w] by (simp add: assms(1))
  from rebalance_submits [OF assms] obtain tail where
    "rebalance s env w =
     w1\<lparr>logs := logs w1 @ map LogGeneratedOrder
        (generateSubmitOrders s prices
           (ElementwiseProduct prices (getQuantities s (Balances env) (TargetWeights env)))
           (TargetWeights env)) @ tail,
        submitted := submitted w1 @
          [generateSubmitOrders s prices
            (ElementwiseProduct prices (getQuantities s (Balances env) (TargetWeights env)))
            (TargetWeights env)]\<rparr>"
    by blast
  then show ?thesis by (simp add: sub)
qed

text \<open>
  The example tick with threshold 1: no currency deviates that much, the order list is
  empty, and SubmitOrders is called with the empty list.
\<close>

theorem submit_called_even_for_no_orders_witness:
  "getPrices (exampleStrategy\<lparr>Threshold := 1\<rparr>) exampleEnv (TargetWeights exampleEnv) emptyWorld =
     ((examplePrices, None), emptyWorld\<lparr>tickerQueries := [''BTCUSDT'', ''ETHUSDT'']\<rparr>)
   \<and> \<not> DryRun (exampleStrategy\<lparr>Threshold := 1\<rparr>)
   \<and> generateSubmitOrders (exampleStrategy\<lparr>Threshold := 1\<rparr>) examplePrices exampleMarketValues
       exampleTargetWeights = []
   \<and> submitted (rebalance (exampleStrategy\<lparr>Threshold := 1\<rparr>) exampleEnv emptyWorld) = [[]]"
proof -
  let ?s = "exampleStrategy\<lparr>Threshold := 1\<rparr>"
  have base: "BaseCurrency ?s = ''USDT''" and avail: "\<not> IgnoreLocked ?s"
    and wet: "\<not> DryRun ?s"
    by (simp_all add: exampleStrategy_def)
  note gp = example_getPrices [OF base]
  have none: "generateSubmitOrders ?s examplePrices exampleMarketValues exampleTargetWeights = []"
    by (simp add: generateSubmitOrders_def example_Sum example_Normalize)
       (simp add: exampleStrategy_def examplePrices_def exampleTargetWeights_def valueAt_def
          fixedpoint_defs)
  from submit_called_even_for_no_orders [OF gp wet]
  have "submitted (rebalance ?s exampleEnv emptyWorld) = [[]]"
    by (simp add: example_marketValues [OF avail] emptyWorld_def)
       (simp add: exampleEnv_def none)
  with gp wet none show ?thesis by simp
qed

end
